theory Spec2Isabelle
  imports Main "HOL-Library.Word"
begin

section \<open>Swap relation builders of zecrey (swapTypes.go)\<close>

text \<open>
  The development embeds \<^verbatim>\<open>NewSwapRelationPart1\<close> and \<^verbatim>\<open>NewSwapRelationPart2\<close> of
  \<^verbatim>\<open>zecrey/twistededwards/tebn254/zecrey/swapTypes.go\<close>.

  Go pointers that the builders compare with \<^verbatim>\<open>nil\<close>, or dereference without such a
  comparison, are \<open>option\<close> values (\<open>None\<close> is \<^verbatim>\<open>nil\<close>); \<^verbatim>\<open>*big.Int\<close> values are
  unbounded \<open>int\<close>; \<^verbatim>\<open>uint32\<close> token ids are \<open>32 word\<close>. A returned Go error, and a
  run-time panic, is the \<open>Inl\<close> side of a sum.
\<close>

subsection \<open>Errors\<close>

datatype error =
    ErrInvalidParams
  | ErrInconsistentPublicKey
  | ErrIncorrectBalance
  | ErrInsufficientBalance
  | ErrPostiveBStar
  | ErrInvalidSwapProof
  | PanicNilDereference
  | PanicDivisionByZero

subsection \<open>The curve library and the package constants\<close>

text \<open>
  The packages \<^verbatim>\<open>curve\<close> (point arithmetic) and \<^verbatim>\<open>ffmath\<close>, and the package-level
  variables \<^verbatim>\<open>G\<close>, \<^verbatim>\<open>H\<close>, \<^verbatim>\<open>Order\<close> and \<^verbatim>\<open>RangeMaxBits\<close>, are declared outside
  \<^verbatim>\<open>swapTypes.go\<close>. The builders are embedded over an arbitrary implementation of them:
  every function below takes the record \<open>ext\<close> of these operations and constants, with
  the type \<open>'p\<close> of curve points left open. \<^verbatim>\<open>Point.Equal\<close> is equality of points.

  \<^verbatim>\<open>ffmath.ModInverse\<close> returns a pointer, and that pointer is \<^verbatim>\<open>nil\<close> when its argument has
  no inverse for the modulus (\<open>sk = 0\<close>, for one): its result is an \<open>option\<close>. The builders
  hand the result to \<^verbatim>\<open>curve.ScalarMul\<close> without looking at it, and \<^verbatim>\<open>curve.ScalarMul\<close>
  dereferences its scalar.
\<close>

record 'p externals =
  curve_Add :: "'p \<Rightarrow> 'p \<Rightarrow> 'p"
  curve_Neg :: "'p \<Rightarrow> 'p"
  curve_ScalarMul :: "'p \<Rightarrow> int \<Rightarrow> 'p"
  curve_ScalarBaseMul :: "int \<Rightarrow> 'p"
  ffmath_ModInverse :: "int \<Rightarrow> int \<Rightarrow> int option"
  curve_G :: "'p"
  curve_H :: "'p"
  curve_Order :: int
  RangeMaxBits :: nat

text \<open>
  \<^verbatim>\<open>curve.RandomValue()\<close> reads the system's random source. The values it delivers are
  an input of the model: \<open>rnd k\<close> is the result of the \<open>k\<close>-th call, and the number of
  calls made so far is threaded through the code.
\<close>

definition RandomValue :: "(nat \<Rightarrow> int) \<Rightarrow> nat \<Rightarrow> int \<times> nat" where
  "RandomValue rnd k = (rnd k, Suc k)"

text \<open>\<^verbatim>\<open>Zero\<close> of the package, and the \<^verbatim>\<open>math/big\<close> methods the builders call.\<close>

definition Zero :: int where
  "Zero = 0"

definition Cmp :: "int \<Rightarrow> int \<Rightarrow> int" where
  "Cmp x y = (if x < y then - 1 else if x = y then 0 else 1)"

definition big_Mod :: "int \<Rightarrow> int \<Rightarrow> error + int" where
  \<comment> \<open>\<^verbatim>\<open>(*big.Int).Mod\<close>: Euclidean modulus; a zero modulus panics.\<close>
  "big_Mod x y = (if y = 0 then Inl PanicDivisionByZero else Inr (x mod \<bar>y\<bar>))"

definition ffmath_Add :: "int \<Rightarrow> int \<Rightarrow> int" where
  "ffmath_Add a b = a + b"

definition ffmath_Sub :: "int \<Rightarrow> int \<Rightarrow> int" where
  "ffmath_Sub a b = a - b"

definition ffmath_Neg :: "int \<Rightarrow> int" where
  "ffmath_Neg a = - a"

subsection \<open>Data\<close>

record 'p ElGamalEnc =
  CL :: "'p"
  CR :: "'p"

text \<open>
  Of \<^verbatim>\<open>SwapProofPart\<close> the builders read five fields only; the commitments, responses,
  range proof and the other public copies of the struct are not touched by them and are
  left out. All five are pointers, and \<^verbatim>\<open>NewSwapRelationPart2\<close> tests only \<^verbatim>\<open>Ht1\<close> and
  \<^verbatim>\<open>Ht2\<close> for \<^verbatim>\<open>nil\<close>.
\<close>

record 'p SwapProofPart =
  BStar1 :: "int option"
  BStar2 :: "int option"
  Fee :: "int option"
  Ht1 :: "'p option"
  Ht2 :: "'p option"

text \<open>
  \<^verbatim>\<open>SwapProofRelationPart\<close>, field by field. A field that the builders always fill with a
  value they have dereferenced before is a plain value; \<^verbatim>\<open>Fee\<close> is copied as a pointer
  in the second builder without being looked at and stays an \<open>option\<close>; the array
  \<^verbatim>\<open>Rs\<close> of \<^verbatim>\<open>RangeMaxBits\<close> pointers is a list of \<open>option\<close>s.
\<close>

record 'p SwapProofRelationPart =
  C :: "'p ElGamalEnc"
  CStar :: "'p ElGamalEnc"
  ReceiverC :: "'p ElGamalEnc"
  ReceiverCStar :: "'p ElGamalEnc"
  ReceiverPk :: "'p"
  T :: "'p"
  Pk :: "'p"
  Ht1 :: "'p"
  Ht2 :: "'p"
  Pt1 :: "'p"
  Pt2 :: "'p"
  G :: "'p"
  H :: "'p"
  FromTokenId :: "32 word"
  ToTokenId :: "32 word"
  TDivCRprime :: "'p"
  CLprimeInv :: "'p"
  BStarFrom :: int
  BStarTo :: int
  Fee :: "int option"
  RStar :: int
  Sk :: int
  BPrime :: int
  RBar :: int
  Rs :: "int option list"

subsection \<open>Cipher and commitment\<close>

definition Enc :: "'p externals \<Rightarrow> int \<Rightarrow> int \<Rightarrow> 'p \<Rightarrow> error + 'p ElGamalEnc" where
  \<comment> \<open>Modelled from the spec: \<^verbatim>\<open>twistedElgamal.Enc\<close> is not in the source at hand. Section 4.1:
      \<^verbatim>\<open>Encrypt(value, randomness, pk)\<close> computes \<^verbatim>\<open>CL = pk^randomness\<close>,
      \<^verbatim>\<open>CR = g^randomness * h^value\<close>; no failure is described.\<close>
  "Enc ext b r pk =
     Inr \<lparr> CL = curve_ScalarMul ext pk r,
           CR = curve_Add ext (curve_ScalarBaseMul ext r) (curve_ScalarMul ext (curve_H ext) b) \<rparr>"

definition Commit :: "'p externals \<Rightarrow> int \<Rightarrow> int \<Rightarrow> 'p \<Rightarrow> 'p \<Rightarrow> error + 'p" where
  \<comment> \<open>Modelled from the spec: \<^verbatim>\<open>pedersen.Commit\<close> is not in the source at hand. Section 4.2:
      \<^verbatim>\<open>Commit(blinding, value) = g^blinding * h^value\<close>; no failure is described.\<close>
  "Commit ext a r g h = Inr (curve_Add ext (curve_ScalarMul ext g a) (curve_ScalarMul ext h r))"

subsection \<open>The blinding loop\<close>

text \<open>
  Lines 155 to 159 (and 253 to 257):
  \<^verbatim>\<open>for i := 0; i < RangeMaxBits; i++ { rs[i] = curve.RandomValue(); rBar.Add(rBar, rs[i]) }\<close>.
  The state of the loop is the index \<open>i\<close>, the number \<open>k\<close> of random values drawn, the
  array \<open>rs\<close> and the running sum \<open>rBar\<close>.
\<close>

function blindings_loop ::
  "(nat \<Rightarrow> int) \<Rightarrow> nat \<Rightarrow> nat \<Rightarrow> nat \<Rightarrow> int option list \<Rightarrow> int \<Rightarrow> int option list \<times> int \<times> nat" where
  "blindings_loop rnd n i k rs rBar =
     (if i < n
      then (case RandomValue rnd k of
              (v, k') \<Rightarrow> blindings_loop rnd n (i + 1) k' (rs[i := Some v]) (rBar + v))
      else (rs, rBar, k))"
  by pat_completeness auto
termination
  by (relation "measure (\<lambda>(rnd, n, i, k, rs, rBar). n - i)") auto

declare blindings_loop.simps [simp del]

subsection \<open>The first party's builder\<close>

definition NewSwapRelationPart1 ::
  "'p externals \<Rightarrow> (nat \<Rightarrow> int) \<Rightarrow>
   'p ElGamalEnc option \<Rightarrow> 'p ElGamalEnc option \<Rightarrow> 'p option \<Rightarrow> 'p option \<Rightarrow>
   int option \<Rightarrow> int option \<Rightarrow> int option \<Rightarrow> int option \<Rightarrow> 32 word \<Rightarrow> 32 word \<Rightarrow> int option \<Rightarrow>
   error + 'p SwapProofRelationPart" where
  "NewSwapRelationPart1 ext rnd C' receiverC pk receiverPk b bStarFrom bStarTo sk fromTokenId toTokenId fee =
    (case (C', receiverC, pk, receiverPk, bStarFrom, bStarTo, sk, fee) of
      (Some vC, Some vReceiverC, Some vPk, Some vReceiverPk, Some vBStarFrom, Some vBStarTo, Some vSk, Some vFee) \<Rightarrow>
        if fromTokenId = 0 \<or> toTokenId = 0 \<or> fromTokenId = toTokenId \<or> Cmp vFee Zero < 0
        then Inl ErrInvalidParams
        else
          let oriPk = curve_ScalarBaseMul ext vSk in
          if oriPk \<noteq> vPk then Inl ErrInconsistentPublicKey
          else
            (case ffmath_ModInverse ext vSk (curve_Order ext) of
              None \<Rightarrow> Inl PanicNilDereference
            | Some skInv \<Rightarrow>
              let hb = curve_Add ext (CR vC)
                         (curve_Neg ext (curve_ScalarMul ext (CL vC) skInv)) in
            (case b of
              None \<Rightarrow> Inl PanicNilDereference
            | Some vB \<Rightarrow>
              let hbCheck = curve_ScalarMul ext (curve_H ext) vB in
              if hb \<noteq> hbCheck then Inl ErrIncorrectBalance
              else if Cmp vB Zero \<le> 0 then Inl ErrInsufficientBalance
              else if Cmp vBStarFrom Zero \<le> 0 then Inl ErrPostiveBStar
              else
                let bPrime = ffmath_Sub vB vBStarFrom;
                    bPrime = bPrime - vFee in
                if Cmp bPrime Zero < 0 then Inl ErrInsufficientBalance
                else
                  let deltaBalance = ffmath_Add vBStarFrom vFee in
                  (case RandomValue rnd 0 of (rStar, k1) \<Rightarrow>
                  (case Enc ext (ffmath_Neg deltaBalance) rStar vPk of
                    Inl err \<Rightarrow> Inl err
                  | Inr vCStar \<Rightarrow>
                  (case Enc ext deltaBalance rStar vReceiverPk of
                    Inl err \<Rightarrow> Inl err
                  | Inr receiverCStar \<Rightarrow>
                  (case blindings_loop rnd (RangeMaxBits ext) 0 k1
                          (replicate (RangeMaxBits ext) None) 0 of
                    (rs, rBarSum, k2) \<Rightarrow>
                  (case big_Mod rBarSum (curve_Order ext) of
                    Inl err \<Rightarrow> Inl err
                  | Inr rBar \<Rightarrow>
                  (case Commit ext rBar bPrime (curve_G ext) (curve_H ext) of
                    Inl err \<Rightarrow> Inl err
                  | Inr vT \<Rightarrow>
                    let vHt1 = curve_ScalarMul ext (curve_H ext) (uint fromTokenId);
                        vHt2 = curve_ScalarMul ext (curve_H ext) (uint toTokenId)
                    in Inr \<lparr> C = vC,
                             CStar = vCStar,
                             ReceiverC = vReceiverC,
                             ReceiverCStar = receiverCStar,
                             ReceiverPk = vReceiverPk,
                             T = vT,
                             Pk = vPk,
                             Ht1 = vHt1,
                             Ht2 = vHt2,
                             Pt1 = curve_ScalarMul ext vHt1 vSk,
                             Pt2 = curve_ScalarMul ext vHt2 vSk,
                             G = curve_G ext,
                             H = curve_H ext,
                             FromTokenId = fromTokenId,
                             ToTokenId = toTokenId,
                             TDivCRprime = curve_Add ext vT
                               (curve_Neg ext (curve_Add ext (CR vC) (CR vCStar))),
                             CLprimeInv = curve_Neg ext (curve_Add ext (CL vC) (CL vCStar)),
                             BStarFrom = vBStarFrom,
                             BStarTo = vBStarTo,
                             Fee = Some vFee,
                             RStar = rStar,
                             Sk = vSk,
                             BPrime = bPrime,
                             RBar = rBar,
                             Rs = rs \<rparr>))))))))
    | _ \<Rightarrow> Inl ErrInvalidParams)"

subsection \<open>The second party's builder\<close>

text \<open>
  The first condition is a chain of \<^verbatim>\<open>||\<close>, evaluated left to right: the two method
  calls \<^verbatim>\<open>proof.BStar1.Cmp(...)\<close> and \<^verbatim>\<open>proof.BStar2.Cmp(...)\<close> at its end are reached
  only when every earlier disjunct is false, and each dereferences its receiver.
\<close>

definition NewSwapRelationPart2 ::
  "'p externals \<Rightarrow> (nat \<Rightarrow> int) \<Rightarrow>
   'p ElGamalEnc option \<Rightarrow> 'p ElGamalEnc option \<Rightarrow> 'p option \<Rightarrow> 'p option \<Rightarrow>
   int option \<Rightarrow> int option \<Rightarrow> 32 word \<Rightarrow> 32 word \<Rightarrow> 'p SwapProofPart option \<Rightarrow>
   error + 'p SwapProofRelationPart" where
  "NewSwapRelationPart2 ext rnd C' receiverC pk receiverPk b sk fromTokenId toTokenId proof =
    (case (C', receiverC, pk, receiverPk, sk, proof) of
      (Some vC, Some vReceiverC, Some vPk, Some vReceiverPk, Some vSk, Some vProof) \<Rightarrow>
        if fromTokenId = 0 \<or> toTokenId = 0 \<or> fromTokenId = toTokenId
        then Inl ErrInvalidParams
        else
          (case (SwapProofPart.Ht1 vProof, SwapProofPart.Ht2 vProof) of
            (Some proofHt1, Some proofHt2) \<Rightarrow>
              (case BStar1 vProof of
                None \<Rightarrow> Inl PanicNilDereference
              | Some vBStar1 \<Rightarrow>
                if Cmp vBStar1 0 \<le> 0 then Inl ErrInvalidParams
                else
                  (case BStar2 vProof of
                    None \<Rightarrow> Inl PanicNilDereference
                  | Some vBStar2 \<Rightarrow>
                    if Cmp vBStar2 0 \<le> 0 then Inl ErrInvalidParams
                    else
                      let oriPk = curve_ScalarBaseMul ext vSk in
                      if oriPk \<noteq> vPk then Inl ErrInconsistentPublicKey
                      else
                        let vHt1 = curve_ScalarMul ext (curve_H ext) (uint fromTokenId);
                            vHt2 = curve_ScalarMul ext (curve_H ext) (uint toTokenId) in
                        if vHt1 \<noteq> proofHt1 \<or> vHt2 \<noteq> proofHt2 then Inl ErrInvalidSwapProof
                        else
                          (case ffmath_ModInverse ext vSk (curve_Order ext) of
                            None \<Rightarrow> Inl PanicNilDereference
                          | Some skInv \<Rightarrow>
                            let hb = curve_Add ext (CR vC)
                                       (curve_Neg ext (curve_ScalarMul ext (CL vC) skInv)) in
                          (case b of
                            None \<Rightarrow> Inl PanicNilDereference
                          | Some vB \<Rightarrow>
                            let hbCheck = curve_ScalarMul ext (curve_H ext) vB in
                            if hb \<noteq> hbCheck then Inl ErrIncorrectBalance
                            else if Cmp vB Zero \<le> 0 then Inl ErrInsufficientBalance
                            else if Cmp vBStar2 Zero \<le> 0 then Inl ErrPostiveBStar
                            else
                              let bPrime = ffmath_Sub vB vBStar2 in
                              if Cmp bPrime Zero < 0 then Inl ErrInsufficientBalance
                              else
                                (case RandomValue rnd 0 of (rStar, k1) \<Rightarrow>
                                (case Enc ext (- vBStar2) rStar vPk of
                                  Inl err \<Rightarrow> Inl err
                                | Inr vCStar \<Rightarrow>
                                (case Enc ext vBStar2 rStar vReceiverPk of
                                  Inl err \<Rightarrow> Inl err
                                | Inr receiverCStar \<Rightarrow>
                                (case blindings_loop rnd (RangeMaxBits ext) 0 k1
                                        (replicate (RangeMaxBits ext) None) 0 of
                                  (rs, rBarSum, k2) \<Rightarrow>
                                (case big_Mod rBarSum (curve_Order ext) of
                                  Inl err \<Rightarrow> Inl err
                                | Inr rBar \<Rightarrow>
                                (case Commit ext rBar bPrime (curve_G ext) (curve_H ext) of
                                  Inl err \<Rightarrow> Inl err
                                | Inr vT \<Rightarrow>
                                  Inr \<lparr> C = vC,
                                        CStar = vCStar,
                                        ReceiverC = vReceiverC,
                                        ReceiverCStar = receiverCStar,
                                        ReceiverPk = vReceiverPk,
                                        T = vT,
                                        Pk = vPk,
                                        Ht1 = vHt1,
                                        Ht2 = vHt2,
                                        Pt1 = curve_ScalarMul ext vHt1 vSk,
                                        Pt2 = curve_ScalarMul ext vHt2 vSk,
                                        G = curve_G ext,
                                        H = curve_H ext,
                                        FromTokenId = fromTokenId,
                                        ToTokenId = toTokenId,
                                        TDivCRprime = curve_Add ext vT
                                          (curve_Neg ext (curve_Add ext (CR vC) (CR vCStar))),
                                        CLprimeInv = curve_Neg ext (curve_Add ext (CL vC) (CL vCStar)),
                                        BStarFrom = vBStar1,
                                        BStarTo = vBStar2,
                                        Fee = SwapProofPart.Fee vProof,
                                        RStar = rStar,
                                        Sk = vSk,
                                        BPrime = bPrime,
                                        RBar = rBar,
                                        Rs = rs \<rparr>))))))))))
          | _ \<Rightarrow> Inl ErrInvalidParams)
    | _ \<Rightarrow> Inl ErrInvalidParams)"

subsection \<open>A small instance of the curve interface\<close>

text \<open>
  For concrete runs: the group \<open>Z\<^sub>1\<^sub>1 \<times> Z\<^sub>1\<^sub>1\<close> under componentwise addition, of exponent
  \<open>11\<close>, with the independent generators \<open>(1, 0)\<close> and \<open>(0, 1)\<close>; the modular inverse is
  Fermat's for the prime \<open>11\<close>, and \<^verbatim>\<open>nil\<close> for a multiple of the modulus; four range bits.
\<close>

definition pair_ext :: "(int \<times> int) externals" where
  "pair_ext =
     \<lparr> curve_Add = (\<lambda>(x1, y1) (x2, y2). ((x1 + x2) mod 11, (y1 + y2) mod 11)),
       curve_Neg = (\<lambda>(x, y). ((- x) mod 11, (- y) mod 11)),
       curve_ScalarMul = (\<lambda>(x, y) s. ((x * s) mod 11, (y * s) mod 11)),
       curve_ScalarBaseMul = (\<lambda>s. (s mod 11, 0)),
       ffmath_ModInverse = (\<lambda>a m. if a mod m = 0 then None else Some ((a ^ nat (m - 2)) mod m)),
       curve_G = (1, 0),
       curve_H = (0, 1),
       curve_Order = 11,
       RangeMaxBits = 4 \<rparr>"

definition rnd_seq :: "nat \<Rightarrow> int" where
  \<comment> \<open>the random values of a run: \<open>1, 2, 3, ...\<close>\<close>
  "rnd_seq k = int k + 1"

text \<open>
  The run of \<^verbatim>\<open>FakeSwapProof\<close> (lines 297 to 321) on this instance: balances \<open>8\<close> and
  \<open>3\<close>, amounts \<open>bStarFrom = 1\<close> and \<open>bStarTo = 8\<close>, token ids \<open>1\<close> and \<open>2\<close>, fee
  \<open>0\<close>. The keys and the encryption randomness, drawn at random there, are fixed here:
  secret keys \<open>3\<close> and \<open>7\<close>, randomness \<open>5\<close>, \<open>2\<close>, \<open>4\<close>, \<open>6\<close>.
\<close>

definition fake_sk1 :: int where "fake_sk1 = 3"
definition fake_pk1 :: "int \<times> int" where "fake_pk1 = (3, 0)"
definition fake_sk2 :: int where "fake_sk2 = 7"
definition fake_pk2 :: "int \<times> int" where "fake_pk2 = (7, 0)"

definition fake_bEnc1 :: "(int \<times> int) ElGamalEnc" where
  "fake_bEnc1 = \<lparr> CL = (4, 0), CR = (5, 8) \<rparr>"

definition fake_bEnc2 :: "(int \<times> int) ElGamalEnc" where
  "fake_bEnc2 = \<lparr> CL = (3, 0), CR = (2, 3) \<rparr>"

definition fake_bEnc3 :: "(int \<times> int) ElGamalEnc" where
  "fake_bEnc3 = \<lparr> CL = (6, 0), CR = (4, 8) \<rparr>"

definition fake_bEnc4 :: "(int \<times> int) ElGamalEnc" where
  "fake_bEnc4 = \<lparr> CL = (7, 0), CR = (6, 8) \<rparr>"

text \<open>The relation that the first builder returns in this run.\<close>

definition fake_relationPart1 :: "(int \<times> int) SwapProofRelationPart" where
  "fake_relationPart1 =
     \<lparr> C = fake_bEnc1, CStar = \<lparr>CL = (3, 0), CR = (1, 10)\<rparr>, ReceiverC = fake_bEnc2,
       ReceiverCStar = \<lparr>CL = (7, 0), CR = (1, 1)\<rparr>, ReceiverPk = fake_pk2,
       T = (3, 7), Pk = fake_pk1, Ht1 = (0, 1), Ht2 = (0, 2), Pt1 = (0, 3),
       Pt2 = (0, 6), G = (1, 0), H = (0, 1), FromTokenId = 1,
       ToTokenId = 2, TDivCRprime = (8, 0), CLprimeInv = (4, 0),
       BStarFrom = 1, BStarTo = 8, Fee = Some 0, RStar = 1, Sk = fake_sk1,
       BPrime = 7, RBar = 3, Rs = [Some 2, Some 3, Some 4, Some 5] \<rparr>"

subsection \<open>Auxiliary notions for the statements\<close>

definition drawn_blindings :: "(nat \<Rightarrow> int) \<Rightarrow> nat \<Rightarrow> int list" where
  \<comment> \<open>the values the blinding loop draws when it starts after one earlier draw\<close>
  "drawn_blindings rnd n = map (\<lambda>j. rnd (Suc j)) [0..<n]"

section \<open>Properties\<close>

subsection \<open>Comparison, loop and closed forms of the builders\<close>

lemma Cmp_Zero_less [simp]: "Cmp x Zero < 0 \<longleftrightarrow> x < 0"
  by (simp add: Cmp_def Zero_def)

lemma Cmp_Zero_le [simp]: "Cmp x Zero \<le> 0 \<longleftrightarrow> x \<le> 0"
  by (simp add: Cmp_def Zero_def)

lemma Cmp_0_le [simp]: "Cmp x 0 \<le> 0 \<longleftrightarrow> x \<le> 0"
  by (simp add: Cmp_def)

lemma upt_shift: "i < n \<Longrightarrow> [0..<n - i] = 0 # map Suc [0..<n - (i + 1)]"
proof -
  assume "i < n"
  then obtain m where m: "n - i = Suc m" "n - (i + 1) = m"
    by (cases "n - i") auto
  show ?thesis unfolding m by (simp add: upt_conv_Cons map_Suc_upt del: upt_Suc)
qed

lemma blindings_loop_from:
  "i \<le> n \<Longrightarrow> length rs = n \<Longrightarrow>
   blindings_loop rnd n i k rs rBar =
     (take i rs @ map (\<lambda>j. Some (rnd (k + j))) [0..<n - i],
      rBar + sum_list (map (\<lambda>j. rnd (k + j)) [0..<n - i]),
      k + (n - i))"
proof (induction rnd n i k rs rBar rule: blindings_loop.induct)
  case (1 rnd n i k rs rBar)
  show ?case
  proof (cases "i < n")
    case False
    with "1.prems" have "i = n" by simp
    with "1.prems" show ?thesis by (simp add: blindings_loop.simps)
  next
    case True
    have rv: "RandomValue rnd k = (rnd k, Suc k)" by (simp add: RandomValue_def)
    have ih: "blindings_loop rnd n (i + 1) (Suc k) (rs[i := Some (rnd k)]) (rBar + rnd k) =
       (take (i + 1) (rs[i := Some (rnd k)]) @ map (\<lambda>j. Some (rnd (Suc k + j))) [0..<n - (i + 1)],
        rBar + rnd k + sum_list (map (\<lambda>j. rnd (Suc k + j)) [0..<n - (i + 1)]),
        Suc k + (n - (i + 1)))"
      using "1.IH" [OF True rv [symmetric]] True "1.prems" by simp
    have tk: "take (Suc i) (rs[i := Some (rnd k)]) = take i rs @ [Some (rnd k)]"
      using True "1.prems" by (simp add: take_Suc_conv_app_nth)
    have "blindings_loop rnd n i k rs rBar =
          blindings_loop rnd n (i + 1) (Suc k) (rs[i := Some (rnd k)]) (rBar + rnd k)"
      using True by (subst blindings_loop.simps) (simp add: rv)
    also note ih
    finally show ?thesis
      using True by (simp add: tk upt_shift [OF True] comp_def del: upt_Suc)
  qed
qed


lemma blindings_loop_run:
  "blindings_loop rnd n 0 (Suc 0) (replicate n None) 0 =
     (map Some (drawn_blindings rnd n), sum_list (drawn_blindings rnd n), Suc n)"
  by (simp add: blindings_loop_from drawn_blindings_def comp_def)

lemma NewSwapRelationPart1_nil:
  "C' = None \<or> receiverC = None \<or> pk = None \<or> receiverPk = None \<or> bStarFrom = None \<or>
   bStarTo = None \<or> sk = None \<or> fee = None \<Longrightarrow>
   NewSwapRelationPart1 ext rnd C' receiverC pk receiverPk b bStarFrom bStarTo sk f t fee =
     Inl ErrInvalidParams"
  by (auto simp: NewSwapRelationPart1_def split: option.splits)

lemma NewSwapRelationPart1_run:
  "NewSwapRelationPart1 ext rnd (Some vC) (Some vReceiverC) (Some vPk) (Some vReceiverPk)
      (Some vB) (Some vBStarFrom) (Some vBStarTo) (Some vSk) f t (Some vFee) =
   (if f = 0 \<or> t = 0 \<or> f = t \<or> vFee < 0 then Inl ErrInvalidParams
    else if curve_ScalarBaseMul ext vSk \<noteq> vPk then Inl ErrInconsistentPublicKey
    else (case ffmath_ModInverse ext vSk (curve_Order ext) of
      None \<Rightarrow> Inl PanicNilDereference
    | Some skInv \<Rightarrow>
    if curve_Add ext (CR vC) (curve_Neg ext (curve_ScalarMul ext (CL vC) skInv)) \<noteq>
            curve_ScalarMul ext (curve_H ext) vB then Inl ErrIncorrectBalance
    else if vB \<le> 0 then Inl ErrInsufficientBalance
    else if vBStarFrom \<le> 0 then Inl ErrPostiveBStar
    else if vB - vBStarFrom - vFee < 0 then Inl ErrInsufficientBalance
    else if curve_Order ext = 0 then Inl PanicDivisionByZero
    else
      Inr \<lparr> C = vC,
            CStar = \<lparr> CL = curve_ScalarMul ext vPk (rnd 0),
                      CR = curve_Add ext (curve_ScalarBaseMul ext (rnd 0))
                             (curve_ScalarMul ext (curve_H ext) (- (vBStarFrom + vFee))) \<rparr>,
            ReceiverC = vReceiverC,
            ReceiverCStar = \<lparr> CL = curve_ScalarMul ext vReceiverPk (rnd 0),
                      CR = curve_Add ext (curve_ScalarBaseMul ext (rnd 0))
                             (curve_ScalarMul ext (curve_H ext) (vBStarFrom + vFee)) \<rparr>,
            ReceiverPk = vReceiverPk,
            T = curve_Add ext
                  (curve_ScalarMul ext (curve_G ext)
                     (sum_list (drawn_blindings rnd (RangeMaxBits ext)) mod \<bar>curve_Order ext\<bar>))
                  (curve_ScalarMul ext (curve_H ext) (vB - vBStarFrom - vFee)),
            Pk = vPk,
            Ht1 = curve_ScalarMul ext (curve_H ext) (uint f),
            Ht2 = curve_ScalarMul ext (curve_H ext) (uint t),
            Pt1 = curve_ScalarMul ext (curve_ScalarMul ext (curve_H ext) (uint f)) vSk,
            Pt2 = curve_ScalarMul ext (curve_ScalarMul ext (curve_H ext) (uint t)) vSk,
            G = curve_G ext,
            H = curve_H ext,
            FromTokenId = f,
            ToTokenId = t,
            TDivCRprime = curve_Add ext
              (curve_Add ext
                  (curve_ScalarMul ext (curve_G ext)
                     (sum_list (drawn_blindings rnd (RangeMaxBits ext)) mod \<bar>curve_Order ext\<bar>))
                  (curve_ScalarMul ext (curve_H ext) (vB - vBStarFrom - vFee)))
              (curve_Neg ext (curve_Add ext (CR vC)
                 (curve_Add ext (curve_ScalarBaseMul ext (rnd 0))
                             (curve_ScalarMul ext (curve_H ext) (- (vBStarFrom + vFee)))))),
            CLprimeInv = curve_Neg ext (curve_Add ext (CL vC) (curve_ScalarMul ext vPk (rnd 0))),
            BStarFrom = vBStarFrom,
            BStarTo = vBStarTo,
            Fee = Some vFee,
            RStar = rnd 0,
            Sk = vSk,
            BPrime = vB - vBStarFrom - vFee,
            RBar = sum_list (drawn_blindings rnd (RangeMaxBits ext)) mod \<bar>curve_Order ext\<bar>,
            Rs = map Some (drawn_blindings rnd (RangeMaxBits ext)) \<rparr>))"
  by (simp add: NewSwapRelationPart1_def Let_def Enc_def Commit_def big_Mod_def RandomValue_def
        blindings_loop_run ffmath_Add_def ffmath_Sub_def ffmath_Neg_def split: option.splits)

lemma NewSwapRelationPart1_nil_b:
  "NewSwapRelationPart1 ext rnd (Some vC) (Some vReceiverC) (Some vPk) (Some vReceiverPk)
      None (Some vBStarFrom) (Some vBStarTo) (Some vSk) f t (Some vFee) =
   (if f = 0 \<or> t = 0 \<or> f = t \<or> vFee < 0 then Inl ErrInvalidParams
    else if curve_ScalarBaseMul ext vSk \<noteq> vPk then Inl ErrInconsistentPublicKey
    else Inl PanicNilDereference)"
  by (simp add: NewSwapRelationPart1_def Let_def split: option.splits)


lemma NewSwapRelationPart1_InrD:
  assumes "NewSwapRelationPart1 ext rnd C' receiverC pk receiverPk b bStarFrom bStarTo sk f t fee = Inr rel"
  obtains vC vReceiverC vPk vReceiverPk vB vBStarFrom vBStarTo vSk vFee where
    "C' = Some vC" "receiverC = Some vReceiverC" "pk = Some vPk" "receiverPk = Some vReceiverPk"
    "b = Some vB" "bStarFrom = Some vBStarFrom" "bStarTo = Some vBStarTo" "sk = Some vSk"
    "fee = Some vFee"
proof -
  have "\<not> (C' = None \<or> receiverC = None \<or> pk = None \<or> receiverPk = None \<or> bStarFrom = None \<or>
           bStarTo = None \<or> sk = None \<or> fee = None)"
  proof
    assume "C' = None \<or> receiverC = None \<or> pk = None \<or> receiverPk = None \<or> bStarFrom = None \<or>
           bStarTo = None \<or> sk = None \<or> fee = None"
    from NewSwapRelationPart1_nil [OF this, of ext rnd b f t] assms show False by simp
  qed
  then obtain vC vReceiverC vPk vReceiverPk vBStarFrom vBStarTo vSk vFee where
    s: "C' = Some vC" "receiverC = Some vReceiverC" "pk = Some vPk" "receiverPk = Some vReceiverPk"
       "bStarFrom = Some vBStarFrom" "bStarTo = Some vBStarTo" "sk = Some vSk" "fee = Some vFee"
    by auto
  have "b \<noteq> None"
  proof
    assume "b = None"
    with assms show False
      unfolding s by (simp add: NewSwapRelationPart1_nil_b split: if_splits)
  qed
  then obtain vB where "b = Some vB" by auto
  with s that show thesis by blast
qed

lemma NewSwapRelationPart2_nil:
  "C' = None \<or> receiverC = None \<or> pk = None \<or> receiverPk = None \<or> sk = None \<or> proof = None \<Longrightarrow>
   NewSwapRelationPart2 ext rnd C' receiverC pk receiverPk b sk f t proof = Inl ErrInvalidParams"
  by (auto simp: NewSwapRelationPart2_def split: option.splits)

lemma NewSwapRelationPart2_params:
  "NewSwapRelationPart2 ext rnd (Some vC) (Some vReceiverC) (Some vPk) (Some vReceiverPk) b
      (Some vSk) f t (Some vProof) =
   (if f = 0 \<or> t = 0 \<or> f = t \<or> SwapProofPart.Ht1 vProof = None \<or> SwapProofPart.Ht2 vProof = None
    then Inl ErrInvalidParams
    else (case BStar1 vProof of
      None \<Rightarrow> Inl PanicNilDereference
    | Some vBStar1 \<Rightarrow>
        if vBStar1 \<le> 0 then Inl ErrInvalidParams
        else (case BStar2 vProof of
          None \<Rightarrow> Inl PanicNilDereference
        | Some vBStar2 \<Rightarrow>
            if vBStar2 \<le> 0 then Inl ErrInvalidParams
            else if curve_ScalarBaseMul ext vSk \<noteq> vPk then Inl ErrInconsistentPublicKey
            else if curve_ScalarMul ext (curve_H ext) (uint f) \<noteq> the (SwapProofPart.Ht1 vProof) \<or>
                    curve_ScalarMul ext (curve_H ext) (uint t) \<noteq> the (SwapProofPart.Ht2 vProof)
            then Inl ErrInvalidSwapProof
            else (case ffmath_ModInverse ext vSk (curve_Order ext) of
              None \<Rightarrow> Inl PanicNilDereference
            | Some skInv \<Rightarrow>
              (case b of
              None \<Rightarrow> Inl PanicNilDereference
            | Some vB \<Rightarrow>
                if curve_Add ext (CR vC) (curve_Neg ext (curve_ScalarMul ext (CL vC) skInv)) \<noteq>
                   curve_ScalarMul ext (curve_H ext) vB then Inl ErrIncorrectBalance
                else if vB \<le> 0 then Inl ErrInsufficientBalance
                else if vB - vBStar2 < 0 then Inl ErrInsufficientBalance
                else if curve_Order ext = 0 then Inl PanicDivisionByZero
                else
                  Inr \<lparr> C = vC,
                        CStar = \<lparr> CL = curve_ScalarMul ext vPk (rnd 0),
                                  CR = curve_Add ext (curve_ScalarBaseMul ext (rnd 0))
                                         (curve_ScalarMul ext (curve_H ext) (- vBStar2)) \<rparr>,
                        ReceiverC = vReceiverC,
                        ReceiverCStar = \<lparr> CL = curve_ScalarMul ext vReceiverPk (rnd 0),
                                  CR = curve_Add ext (curve_ScalarBaseMul ext (rnd 0))
                                         (curve_ScalarMul ext (curve_H ext) vBStar2) \<rparr>,
                        ReceiverPk = vReceiverPk,
                        T = curve_Add ext
                              (curve_ScalarMul ext (curve_G ext)
                                 (sum_list (drawn_blindings rnd (RangeMaxBits ext)) mod \<bar>curve_Order ext\<bar>))
                              (curve_ScalarMul ext (curve_H ext) (vB - vBStar2)),
                        Pk = vPk,
                        Ht1 = curve_ScalarMul ext (curve_H ext) (uint f),
                        Ht2 = curve_ScalarMul ext (curve_H ext) (uint t),
                        Pt1 = curve_ScalarMul ext (curve_ScalarMul ext (curve_H ext) (uint f)) vSk,
                        Pt2 = curve_ScalarMul ext (curve_ScalarMul ext (curve_H ext) (uint t)) vSk,
                        G = curve_G ext,
                        H = curve_H ext,
                        FromTokenId = f,
                        ToTokenId = t,
                        TDivCRprime = curve_Add ext
                          (curve_Add ext
                              (curve_ScalarMul ext (curve_G ext)
                                 (sum_list (drawn_blindings rnd (RangeMaxBits ext)) mod \<bar>curve_Order ext\<bar>))
                              (curve_ScalarMul ext (curve_H ext) (vB - vBStar2)))
                          (curve_Neg ext (curve_Add ext (CR vC)
                             (curve_Add ext (curve_ScalarBaseMul ext (rnd 0))
                                         (curve_ScalarMul ext (curve_H ext) (- vBStar2))))),
                        CLprimeInv = curve_Neg ext (curve_Add ext (CL vC) (curve_ScalarMul ext vPk (rnd 0))),
                        BStarFrom = vBStar1,
                        BStarTo = vBStar2,
                        Fee = SwapProofPart.Fee vProof,
                        RStar = rnd 0,
                        Sk = vSk,
                        BPrime = vB - vBStar2,
                        RBar = sum_list (drawn_blindings rnd (RangeMaxBits ext)) mod \<bar>curve_Order ext\<bar>,
                        Rs = map Some (drawn_blindings rnd (RangeMaxBits ext)) \<rparr>)))))"
  by (simp add: NewSwapRelationPart2_def Let_def Enc_def Commit_def big_Mod_def RandomValue_def
        blindings_loop_run ffmath_Sub_def split: option.splits)

lemma NewSwapRelationPart2_InrD:
  assumes "NewSwapRelationPart2 ext rnd C' receiverC pk receiverPk b sk f t proof = Inr rel"
  obtains vC vReceiverC vPk vReceiverPk vB vSk vProof vBStar1 vBStar2 where
    "C' = Some vC" "receiverC = Some vReceiverC" "pk = Some vPk" "receiverPk = Some vReceiverPk"
    "b = Some vB" "sk = Some vSk" "proof = Some vProof"
    "BStar1 vProof = Some vBStar1" "BStar2 vProof = Some vBStar2"
proof -
  have "\<not> (C' = None \<or> receiverC = None \<or> pk = None \<or> receiverPk = None \<or> sk = None \<or>
           proof = None)"
  proof
    assume "C' = None \<or> receiverC = None \<or> pk = None \<or> receiverPk = None \<or> sk = None \<or>
            proof = None"
    from NewSwapRelationPart2_nil [OF this, of ext rnd b f t] assms show False by simp
  qed
  then obtain vC vReceiverC vPk vReceiverPk vSk vProof where
    s: "C' = Some vC" "receiverC = Some vReceiverC" "pk = Some vPk" "receiverPk = Some vReceiverPk"
       "sk = Some vSk" "proof = Some vProof"
    by auto
  from assms have "BStar1 vProof \<noteq> None \<and> BStar2 vProof \<noteq> None \<and> b \<noteq> None"
    unfolding s NewSwapRelationPart2_params by (simp split: if_splits option.splits)
  then obtain vB vBStar1 vBStar2 where
    "b = Some vB" "BStar1 vProof = Some vBStar1" "BStar2 vProof = Some vBStar2"
    by auto
  with s that show thesis by blast
qed

subsection \<open>Runs on the small instance\<close>

lemma drawn_blindings_rnd_seq: "drawn_blindings rnd_seq 4 = [2, 3, 4, 5]"
  by (simp add: drawn_blindings_def rnd_seq_def upt_rec)

lemma pair_ext_simps:
  "curve_Add pair_ext (x1, y1) (x2, y2) = ((x1 + x2) mod 11, (y1 + y2) mod 11)"
  "curve_Neg pair_ext (x, y) = ((- x) mod 11, (- y) mod 11)"
  "curve_ScalarMul pair_ext (x, y) s = ((x * s) mod 11, (y * s) mod 11)"
  "curve_ScalarBaseMul pair_ext s = (s mod 11, 0)"
  "ffmath_ModInverse pair_ext a m = (if a mod m = 0 then None else Some ((a ^ nat (m - 2)) mod m))"
  "curve_G pair_ext = (1, 0)"
  "curve_H pair_ext = (0, 1)"
  "curve_Order pair_ext = 11"
  "RangeMaxBits pair_ext = 4"
  by (simp_all add: pair_ext_def)

lemma fake_encryptions:
  "Enc pair_ext 8 5 fake_pk1 = Inr fake_bEnc1"
  "Enc pair_ext 3 2 fake_pk2 = Inr fake_bEnc2"
  "Enc pair_ext 8 4 fake_pk2 = Inr fake_bEnc3"
  "Enc pair_ext 8 6 fake_pk1 = Inr fake_bEnc4"
  by (simp_all add: Enc_def pair_ext_simps fake_pk1_def fake_pk2_def fake_bEnc1_def fake_bEnc2_def fake_bEnc3_def fake_bEnc4_def)

lemma fake_part1_run:
  "NewSwapRelationPart1 pair_ext rnd_seq (Some fake_bEnc1) (Some fake_bEnc2) (Some fake_pk1)
     (Some fake_pk2) (Some 8) (Some 1) (Some 8) (Some fake_sk1) 1 2 (Some 0) =
   Inr fake_relationPart1"
  by (simp add: NewSwapRelationPart1_run pair_ext_simps drawn_blindings_rnd_seq
        fake_relationPart1_def fake_sk1_def fake_pk1_def fake_pk2_def fake_bEnc1_def
        fake_bEnc2_def rnd_seq_def)

subsection \<open>The witness invariant of the first builder\<close>

text \<open>
  C1. Every successful call of \<^verbatim>\<open>NewSwapRelationPart1\<close> returns a relation that satisfies the
  witness invariant: \<open>BPrime\<close> is \<open>b - bStarFrom - fee\<close> and is not negative; \<open>Rs\<close> holds
  \<open>RangeMaxBits\<close> blindings, none of them \<^verbatim>\<open>nil\<close>, and \<open>RBar\<close> is their sum modulo the
  group order; \<open>T\<close> is the Pedersen commitment \<open>g^RBar * h^BPrime\<close>. The group order is
  positive.
\<close>

theorem part1_witness_invariant:
  assumes run: "NewSwapRelationPart1 ext rnd C' receiverC pk receiverPk b bStarFrom bStarTo sk
                  fromTokenId toTokenId fee = Inr rel"
    and order: "0 < curve_Order ext"
  shows "\<exists>vB vBStarFrom vFee vs.
           b = Some vB \<and> bStarFrom = Some vBStarFrom \<and> fee = Some vFee \<and>
           BPrime rel = vB - vBStarFrom - vFee \<and> 0 \<le> BPrime rel \<and>
           Rs rel = map Some vs \<and> length vs = RangeMaxBits ext \<and>
           RBar rel = sum_list vs mod curve_Order ext \<and>
           T rel = curve_Add ext (curve_ScalarMul ext (curve_G ext) (RBar rel))
                     (curve_ScalarMul ext (curve_H ext) (BPrime rel))"
proof -
  from run obtain vC vReceiverC vPk vReceiverPk vB vBStarFrom vBStarTo vSk vFee where
    s: "C' = Some vC" "receiverC = Some vReceiverC" "pk = Some vPk" "receiverPk = Some vReceiverPk"
       "b = Some vB" "bStarFrom = Some vBStarFrom" "bStarTo = Some vBStarTo" "sk = Some vSk"
       "fee = Some vFee"
    by (rule NewSwapRelationPart1_InrD)
  let ?vs = "drawn_blindings rnd (RangeMaxBits ext)"
  have len: "length ?vs = RangeMaxBits ext"
    by (simp add: drawn_blindings_def)
  from run order have
    "BPrime rel = vB - vBStarFrom - vFee \<and> 0 \<le> BPrime rel \<and>
     Rs rel = map Some ?vs \<and> RBar rel = sum_list ?vs mod curve_Order ext \<and>
     T rel = curve_Add ext (curve_ScalarMul ext (curve_G ext) (RBar rel))
               (curve_ScalarMul ext (curve_H ext) (BPrime rel))"
    unfolding s NewSwapRelationPart1_run by (auto split: if_splits option.splits)
  with s len show ?thesis by blast
qed

theorem part1_witness_invariant_witness:
  "case NewSwapRelationPart1 pair_ext rnd_seq (Some fake_bEnc1) (Some fake_bEnc2) (Some fake_pk1) (Some fake_pk2)
          (Some 8) (Some 1) (Some 8) (Some fake_sk1) 1 2 (Some 0) of
     Inl e \<Rightarrow> False
   | Inr rel \<Rightarrow>
       BPrime rel = 8 - 1 - 0 \<and> 0 \<le> BPrime rel \<and>
       Rs rel = map Some [2, 3, 4, 5] \<and> RBar rel = (2 + 3 + 4 + 5) mod 11 \<and>
       T rel = curve_Add pair_ext (curve_ScalarMul pair_ext (curve_G pair_ext) (RBar rel))
                 (curve_ScalarMul pair_ext (curve_H pair_ext) (BPrime rel))"
proof -
  have order: "0 < curve_Order pair_ext"
    by (simp add: pair_ext_simps)
  from part1_witness_invariant [OF fake_part1_run order]
  show ?thesis
    by (simp add: fake_part1_run pair_ext_simps fake_relationPart1_def)
qed

subsection \<open>The balance check of the first builder\<close>




subsection \<open>The order of the precondition checks of the first builder\<close>

text \<open>
  C3. The documented order puts a \<^verbatim>\<open>nil\<close> input first, with \<^verbatim>\<open>ErrInvalidParams\<close>, before the
  public-key check. Line 107 leaves the claimed balance \<open>b\<close> out of its \<^verbatim>\<open>nil\<close> tests, so the
  order is broken for it: with \<open>b = nil\<close>, otherwise acceptable parameters and a public key
  that is not \<open>g^sk\<close>, the call returns \<^verbatim>\<open>ErrInconsistentPublicKey\<close>, the error of the later
  check.
\<close>

theorem part1_nil_balance_wrong_key:
  assumes tokens: "fromTokenId \<noteq> 0" "toTokenId \<noteq> 0" "fromTokenId \<noteq> toTokenId"
    and fee: "0 \<le> vFee"
    and key: "curve_ScalarBaseMul ext vSk \<noteq> vPk"
  shows "NewSwapRelationPart1 ext rnd (Some vC) (Some vReceiverC) (Some vPk) (Some vReceiverPk)
           None (Some vBStarFrom) (Some vBStarTo) (Some vSk) fromTokenId toTokenId (Some vFee) =
         Inl ErrInconsistentPublicKey"
  using assms by (simp add: NewSwapRelationPart1_nil_b)

theorem part1_nil_balance_wrong_key_run:
  "NewSwapRelationPart1 pair_ext rnd_seq (Some fake_bEnc1) (Some fake_bEnc2) (Some fake_pk2)
     (Some fake_pk2) None (Some 1) (Some 8) (Some fake_sk1) 1 2 (Some 0)
     = Inl ErrInconsistentPublicKey"
proof -
  have tokens: "(1 :: 32 word) \<noteq> 0" "(2 :: 32 word) \<noteq> 0" "(1 :: 32 word) \<noteq> 2"
    by simp_all
  have fee: "(0 :: int) \<le> 0"
    by simp
  have key: "curve_ScalarBaseMul pair_ext fake_sk1 \<noteq> fake_pk2"
    by (simp add: pair_ext_simps fake_sk1_def fake_pk2_def)
  show ?thesis
    by (rule part1_nil_balance_wrong_key [OF tokens fee key])
qed

subsection \<open>The fields of the relation of the first builder\<close>

text \<open>
  C4. On success \<^verbatim>\<open>NewSwapRelationPart1\<close> sets \<open>CStar\<close> to the encryption of
  \<open>-(bStarFrom + fee)\<close> under \<open>pk\<close> with randomness \<open>RStar\<close>, \<open>ReceiverCStar\<close> to the encryption
  of \<open>bStarFrom + fee\<close> under \<open>receiverPk\<close> with the same \<open>RStar\<close>, \<open>TDivCRprime\<close> to \<open>T\<close> minus
  \<open>C.CR + CStar.CR\<close>, \<open>CLprimeInv\<close> to the negation of \<open>C.CL + CStar.CL\<close>, \<open>Ht1\<close> and \<open>Ht2\<close> to
  \<open>H\<close> scaled by the two token ids, and \<open>Pt1\<close>, \<open>Pt2\<close> to \<open>Ht1\<close>, \<open>Ht2\<close> scaled by \<open>sk\<close>.
\<close>

theorem part1_relation_fields:
  assumes run: "NewSwapRelationPart1 ext rnd C' receiverC pk receiverPk b bStarFrom bStarTo sk
                  fromTokenId toTokenId fee = Inr rel"
  shows "\<exists>vC vPk vReceiverPk vBStarFrom vSk vFee.
           C' = Some vC \<and> pk = Some vPk \<and> receiverPk = Some vReceiverPk \<and>
           bStarFrom = Some vBStarFrom \<and> sk = Some vSk \<and> fee = Some vFee \<and>
           Enc ext (- (vBStarFrom + vFee)) (RStar rel) vPk = Inr (CStar rel) \<and>
           Enc ext (vBStarFrom + vFee) (RStar rel) vReceiverPk = Inr (ReceiverCStar rel) \<and>
           TDivCRprime rel =
             curve_Add ext (T rel) (curve_Neg ext (curve_Add ext (CR vC) (CR (CStar rel)))) \<and>
           CLprimeInv rel = curve_Neg ext (curve_Add ext (CL vC) (CL (CStar rel))) \<and>
           Ht1 rel = curve_ScalarMul ext (curve_H ext) (uint fromTokenId) \<and>
           Ht2 rel = curve_ScalarMul ext (curve_H ext) (uint toTokenId) \<and>
           Pt1 rel = curve_ScalarMul ext (Ht1 rel) vSk \<and>
           Pt2 rel = curve_ScalarMul ext (Ht2 rel) vSk"
proof -
  from run obtain vC vReceiverC vPk vReceiverPk vB vBStarFrom vBStarTo vSk vFee where
    s: "C' = Some vC" "receiverC = Some vReceiverC" "pk = Some vPk" "receiverPk = Some vReceiverPk"
       "b = Some vB" "bStarFrom = Some vBStarFrom" "bStarTo = Some vBStarTo" "sk = Some vSk"
       "fee = Some vFee"
    by (rule NewSwapRelationPart1_InrD)
  from run have
    "Enc ext (- (vBStarFrom + vFee)) (RStar rel) vPk = Inr (CStar rel) \<and>
     Enc ext (vBStarFrom + vFee) (RStar rel) vReceiverPk = Inr (ReceiverCStar rel) \<and>
     TDivCRprime rel =
       curve_Add ext (T rel) (curve_Neg ext (curve_Add ext (CR vC) (CR (CStar rel)))) \<and>
     CLprimeInv rel = curve_Neg ext (curve_Add ext (CL vC) (CL (CStar rel))) \<and>
     Ht1 rel = curve_ScalarMul ext (curve_H ext) (uint fromTokenId) \<and>
     Ht2 rel = curve_ScalarMul ext (curve_H ext) (uint toTokenId) \<and>
     Pt1 rel = curve_ScalarMul ext (Ht1 rel) vSk \<and>
     Pt2 rel = curve_ScalarMul ext (Ht2 rel) vSk"
    unfolding s NewSwapRelationPart1_run
    by (auto simp: Enc_def split: if_splits option.splits)
  with s show ?thesis by blast
qed

theorem part1_relation_fields_witness:
  "NewSwapRelationPart1 pair_ext rnd_seq (Some fake_bEnc1) (Some fake_bEnc2) (Some fake_pk1)
     (Some fake_pk2) (Some 8) (Some 1) (Some 8) (Some fake_sk1) 1 2 (Some 0) = Inr fake_relationPart1 \<and>
   Enc pair_ext (- (1 + 0)) (RStar fake_relationPart1) fake_pk1 = Inr (CStar fake_relationPart1) \<and>
   Enc pair_ext (1 + 0) (RStar fake_relationPart1) fake_pk2 = Inr (ReceiverCStar fake_relationPart1) \<and>
   TDivCRprime fake_relationPart1 =
     curve_Add pair_ext (T fake_relationPart1)
       (curve_Neg pair_ext (curve_Add pair_ext (CR fake_bEnc1) (CR (CStar fake_relationPart1)))) \<and>
   CLprimeInv fake_relationPart1 =
     curve_Neg pair_ext (curve_Add pair_ext (CL fake_bEnc1) (CL (CStar fake_relationPart1))) \<and>
   Ht1 fake_relationPart1 = curve_ScalarMul pair_ext (curve_H pair_ext) (uint (1 :: 32 word)) \<and>
   Ht2 fake_relationPart1 = curve_ScalarMul pair_ext (curve_H pair_ext) (uint (2 :: 32 word)) \<and>
   Pt1 fake_relationPart1 = curve_ScalarMul pair_ext (Ht1 fake_relationPart1) fake_sk1 \<and>
   Pt2 fake_relationPart1 = curve_ScalarMul pair_ext (Ht2 fake_relationPart1) fake_sk1"
  using part1_relation_fields [OF fake_part1_run] fake_part1_run
  by simp

subsection \<open>The fee\<close>

text \<open>
  C6. The fee is charged on the initiating leg only. A relation returned by
  \<^verbatim>\<open>NewSwapRelationPart1\<close> has \<open>BPrime = b - bStarFrom - fee\<close> and delta ciphertexts that
  encrypt \<open>-(bStarFrom + fee)\<close> and \<open>bStarFrom + fee\<close>. A relation returned by
  \<^verbatim>\<open>NewSwapRelationPart2\<close> has \<open>BPrime = b - proof.BStar2\<close>, with no fee subtracted, delta
  ciphertexts that encrypt \<open>- proof.BStar2\<close> and \<open>proof.BStar2\<close>, and the \<open>Fee\<close> field of the
  first party's published part as its own \<open>Fee\<close>.
\<close>

theorem fee_on_initiating_leg:
  "(NewSwapRelationPart1 ext rnd C' receiverC pk receiverPk b bStarFrom bStarTo sk
      fromTokenId toTokenId fee = Inr rel \<longrightarrow>
      (\<exists>vB vBStarFrom vFee vPk vReceiverPk.
         b = Some vB \<and> bStarFrom = Some vBStarFrom \<and> fee = Some vFee \<and>
         pk = Some vPk \<and> receiverPk = Some vReceiverPk \<and>
         BPrime rel = vB - vBStarFrom - vFee \<and>
         Enc ext (- (vBStarFrom + vFee)) (RStar rel) vPk = Inr (CStar rel) \<and>
         Enc ext (vBStarFrom + vFee) (RStar rel) vReceiverPk = Inr (ReceiverCStar rel) \<and>
         Fee rel = Some vFee))
   \<and>
   (NewSwapRelationPart2 ext rnd' D receiverD pk' receiverPk' b' sk' fromTokenId' toTokenId' proof
      = Inr rel' \<longrightarrow>
      (\<exists>vB vProof vBStar2 vPk vReceiverPk.
         b' = Some vB \<and> proof = Some vProof \<and> BStar2 vProof = Some vBStar2 \<and>
         pk' = Some vPk \<and> receiverPk' = Some vReceiverPk \<and>
         BPrime rel' = vB - vBStar2 \<and>
         Enc ext (- vBStar2) (RStar rel') vPk = Inr (CStar rel') \<and>
         Enc ext vBStar2 (RStar rel') vReceiverPk = Inr (ReceiverCStar rel') \<and>
         Fee rel' = SwapProofPart.Fee vProof))"
proof (intro conjI impI)
  assume run: "NewSwapRelationPart1 ext rnd C' receiverC pk receiverPk b bStarFrom bStarTo sk
      fromTokenId toTokenId fee = Inr rel"
  then obtain vC vReceiverC vPk vReceiverPk vB vBStarFrom vBStarTo vSk vFee where
    s: "C' = Some vC" "receiverC = Some vReceiverC" "pk = Some vPk" "receiverPk = Some vReceiverPk"
       "b = Some vB" "bStarFrom = Some vBStarFrom" "bStarTo = Some vBStarTo" "sk = Some vSk"
       "fee = Some vFee"
    by (rule NewSwapRelationPart1_InrD)
  from run have
    "BPrime rel = vB - vBStarFrom - vFee \<and>
     Enc ext (- (vBStarFrom + vFee)) (RStar rel) vPk = Inr (CStar rel) \<and>
     Enc ext (vBStarFrom + vFee) (RStar rel) vReceiverPk = Inr (ReceiverCStar rel) \<and>
     Fee rel = Some vFee"
    unfolding s NewSwapRelationPart1_run
    by (auto simp: Enc_def split: if_splits option.splits)
  with s show "\<exists>vB vBStarFrom vFee vPk vReceiverPk.
         b = Some vB \<and> bStarFrom = Some vBStarFrom \<and> fee = Some vFee \<and>
         pk = Some vPk \<and> receiverPk = Some vReceiverPk \<and>
         BPrime rel = vB - vBStarFrom - vFee \<and>
         Enc ext (- (vBStarFrom + vFee)) (RStar rel) vPk = Inr (CStar rel) \<and>
         Enc ext (vBStarFrom + vFee) (RStar rel) vReceiverPk = Inr (ReceiverCStar rel) \<and>
         Fee rel = Some vFee"
    by blast
next
  assume run: "NewSwapRelationPart2 ext rnd' D receiverD pk' receiverPk' b' sk' fromTokenId' toTokenId'
      proof = Inr rel'"
  then obtain vC vReceiverC vPk vReceiverPk vB vSk vProof vBStar1 vBStar2 where
    s: "D = Some vC" "receiverD = Some vReceiverC" "pk' = Some vPk" "receiverPk' = Some vReceiverPk"
       "b' = Some vB" "sk' = Some vSk" "proof = Some vProof"
    and bs: "BStar1 vProof = Some vBStar1" "BStar2 vProof = Some vBStar2"
    by (rule NewSwapRelationPart2_InrD)
  from run have
    "BPrime rel' = vB - vBStar2 \<and>
     Enc ext (- vBStar2) (RStar rel') vPk = Inr (CStar rel') \<and>
     Enc ext vBStar2 (RStar rel') vReceiverPk = Inr (ReceiverCStar rel') \<and>
     Fee rel' = SwapProofPart.Fee vProof"
    unfolding s NewSwapRelationPart2_params
    by (auto simp: bs Enc_def split: if_splits option.splits)
  with s bs show "\<exists>vB vProof vBStar2 vPk vReceiverPk.
         b' = Some vB \<and> proof = Some vProof \<and> BStar2 vProof = Some vBStar2 \<and>
         pk' = Some vPk \<and> receiverPk' = Some vReceiverPk \<and>
         BPrime rel' = vB - vBStar2 \<and>
         Enc ext (- vBStar2) (RStar rel') vPk = Inr (CStar rel') \<and>
         Enc ext vBStar2 (RStar rel') vReceiverPk = Inr (ReceiverCStar rel') \<and>
         Fee rel' = SwapProofPart.Fee vProof"
    by blast
qed


theorem fee_on_initiating_leg_witness:
  "(case NewSwapRelationPart1 pair_ext rnd_seq (Some fake_bEnc1) (Some fake_bEnc2) (Some fake_pk1)
           (Some fake_pk2) (Some 8) (Some 1) (Some 8) (Some fake_sk1) 1 2 (Some 2) of
      Inl e \<Rightarrow> False
    | Inr rel \<Rightarrow>
        BPrime rel = 8 - 1 - 2 \<and>
        Enc pair_ext (- (1 + 2)) (RStar rel) fake_pk1 = Inr (CStar rel) \<and>
        Enc pair_ext (1 + 2) (RStar rel) fake_pk2 = Inr (ReceiverCStar rel) \<and>
        Fee rel = Some 2)
   \<and>
   (case NewSwapRelationPart2 pair_ext rnd_seq (Some fake_bEnc3) (Some fake_bEnc4) (Some fake_pk2)
           (Some fake_pk1) (Some 8) (Some fake_sk2) 1 2
           (Some \<lparr> BStar1 = Some 1, BStar2 = Some 8, Fee = Some 2,
                   Ht1 = Some (0, 1), Ht2 = Some (0, 2) \<rparr>) of
      Inl e \<Rightarrow> False
    | Inr rel \<Rightarrow>
        BPrime rel = 8 - 8 \<and>
        Enc pair_ext (- 8) (RStar rel) fake_pk2 = Inr (CStar rel) \<and>
        Enc pair_ext 8 (RStar rel) fake_pk1 = Inr (ReceiverCStar rel) \<and>
        Fee rel = Some 2)"
proof -
  obtain rel where r1:
    "NewSwapRelationPart1 pair_ext rnd_seq (Some fake_bEnc1) (Some fake_bEnc2) (Some fake_pk1)
       (Some fake_pk2) (Some 8) (Some 1) (Some 8) (Some fake_sk1) 1 2 (Some 2) = Inr rel"
    by (simp add: NewSwapRelationPart1_run pair_ext_simps fake_sk1_def fake_pk1_def fake_bEnc1_def)
  obtain rel' where r2:
    "NewSwapRelationPart2 pair_ext rnd_seq (Some fake_bEnc3) (Some fake_bEnc4) (Some fake_pk2)
       (Some fake_pk1) (Some 8) (Some fake_sk2) 1 2
       (Some \<lparr> BStar1 = Some 1, BStar2 = Some 8, Fee = Some 2,
               Ht1 = Some (0, 1), Ht2 = Some (0, 2) \<rparr>) = Inr rel'"
    by (simp add: NewSwapRelationPart2_params pair_ext_simps fake_sk2_def fake_pk2_def
          fake_bEnc3_def)
  note leg = fee_on_initiating_leg [of pair_ext rnd_seq "Some fake_bEnc1" "Some fake_bEnc2"
      "Some fake_pk1" "Some fake_pk2" "Some 8" "Some 1" "Some 8" "Some fake_sk1" 1 2 "Some 2" rel
      rnd_seq "Some fake_bEnc3" "Some fake_bEnc4" "Some fake_pk2" "Some fake_pk1" "Some 8"
      "Some fake_sk2" 1 2
      "Some \<lparr> BStar1 = Some 1, BStar2 = Some 8, Fee = Some 2, Ht1 = Some (0, 1), Ht2 = Some (0, 2) \<rparr>"
      rel']
  from leg r1 r2 show ?thesis
    by auto
qed

subsection \<open>A tampered first part\<close>

text \<open>
  C7. For a call of \<^verbatim>\<open>NewSwapRelationPart2\<close> that passes the parameter check and the
  public-key check: if \<open>H\<close> scaled by \<open>fromTokenId\<close> differs from \<^verbatim>\<open>proof.Ht1\<close>, or \<open>H\<close> scaled
  by \<open>toTokenId\<close> differs from \<^verbatim>\<open>proof.Ht2\<close>, the call returns \<^verbatim>\<open>ErrInvalidSwapProof\<close>.
\<close>

theorem part2_rejects_tampered_part:
  assumes tokens: "fromTokenId \<noteq> 0" "toTokenId \<noteq> 0" "fromTokenId \<noteq> toTokenId"
    and images: "SwapProofPart.Ht1 vProof = Some proofHt1" "SwapProofPart.Ht2 vProof = Some proofHt2"
    and amounts: "BStar1 vProof = Some vBStar1" "0 < vBStar1" "BStar2 vProof = Some vBStar2" "0 < vBStar2"
    and key: "curve_ScalarBaseMul ext vSk = vPk"
    and tampered: "curve_ScalarMul ext (curve_H ext) (uint fromTokenId) \<noteq> proofHt1 \<or>
                   curve_ScalarMul ext (curve_H ext) (uint toTokenId) \<noteq> proofHt2"
  shows "NewSwapRelationPart2 ext rnd (Some vC) (Some vReceiverC) (Some vPk) (Some vReceiverPk) b
           (Some vSk) fromTokenId toTokenId (Some vProof) = Inl ErrInvalidSwapProof"
  using assms by (auto simp: NewSwapRelationPart2_params)

theorem part2_rejects_tampered_part_witness:
  "NewSwapRelationPart2 pair_ext rnd_seq (Some fake_bEnc3) (Some fake_bEnc4) (Some fake_pk2)
     (Some fake_pk1) (Some 8) (Some fake_sk2) 1 2
     (Some \<lparr> BStar1 = Some 1, BStar2 = Some 8, Fee = Some 0,
             Ht1 = Some (0, 1), Ht2 = Some (0, 3) \<rparr>) = Inl ErrInvalidSwapProof"
proof -
  let ?part = "\<lparr> BStar1 = Some 1, BStar2 = Some 8, Fee = Some 0,
                 Ht1 = Some (0 :: int, 1 :: int), Ht2 = Some (0, 3) \<rparr>"
  have tokens: "(1 :: 32 word) \<noteq> 0" "(2 :: 32 word) \<noteq> 0" "(1 :: 32 word) \<noteq> 2"
    by simp_all
  have images: "SwapProofPart.Ht1 ?part = Some (0, 1)" "SwapProofPart.Ht2 ?part = Some (0, 3)"
    by simp_all
  have amounts: "BStar1 ?part = Some 1" "(0 :: int) < 1" "BStar2 ?part = Some 8" "(0 :: int) < 8"
    by simp_all
  have key: "curve_ScalarBaseMul pair_ext fake_sk2 = fake_pk2"
    by (simp add: pair_ext_simps fake_sk2_def fake_pk2_def)
  have tampered:
    "curve_ScalarMul pair_ext (curve_H pair_ext) (uint (1 :: 32 word)) \<noteq> (0, 1) \<or>
     curve_ScalarMul pair_ext (curve_H pair_ext) (uint (2 :: 32 word)) \<noteq> (0, 3)"
    by (simp add: pair_ext_simps)
  show ?thesis
    by (rule part2_rejects_tampered_part [OF tokens images amounts key tampered])
qed

subsection \<open>A nil balance\<close>

text \<open>
  C8. Line 107 of \<^verbatim>\<open>NewSwapRelationPart1\<close> tests every pointer input for \<^verbatim>\<open>nil\<close> except the
  claimed balance \<open>b\<close>. With \<open>b = nil\<close> and otherwise acceptable parameters the call does
  not return \<^verbatim>\<open>ErrInvalidParams\<close>: it goes on to the public-key check, returns
  \<^verbatim>\<open>ErrInconsistentPublicKey\<close> when that fails, and otherwise panics on a \<^verbatim>\<open>nil\<close> pointer: on
  \<open>b\<close> at line 125, unless line 124 has already met a \<^verbatim>\<open>nil\<close> inverse.
\<close>

theorem part1_nil_balance:
  assumes tokens: "fromTokenId \<noteq> 0" "toTokenId \<noteq> 0" "fromTokenId \<noteq> toTokenId"
    and fee: "0 \<le> vFee"
  shows "NewSwapRelationPart1 ext rnd (Some vC) (Some vReceiverC) (Some vPk) (Some vReceiverPk)
           None (Some vBStarFrom) (Some vBStarTo) (Some vSk) fromTokenId toTokenId (Some vFee) =
         (if curve_ScalarBaseMul ext vSk = vPk then Inl PanicNilDereference
          else Inl ErrInconsistentPublicKey)"
  using assms by (simp add: NewSwapRelationPart1_nil_b)

theorem part1_nil_balance_run:
  "NewSwapRelationPart1 pair_ext rnd_seq (Some fake_bEnc1) (Some fake_bEnc2) (Some fake_pk1)
     (Some fake_pk2) None (Some 1) (Some 8) (Some fake_sk1) 1 2 (Some 0) = Inl PanicNilDereference"
proof -
  have key: "curve_ScalarBaseMul pair_ext fake_sk1 = fake_pk1"
    by (simp add: pair_ext_simps fake_sk1_def fake_pk1_def)
  show ?thesis
    by (subst part1_nil_balance) (simp_all add: key)
qed

subsection \<open>Spending the whole balance\<close>

text \<open>
  C9. \<^verbatim>\<open>NewSwapRelationPart1\<close> accepts a swap that spends the entire balance. For inputs
  that pass the parameter, key and balance checks, with a secret key that has an inverse,
  \<open>b > 0\<close> and \<open>bStarFrom > 0\<close> (and a group order that is not zero): when
  \<open>b = bStarFrom + fee\<close> the call returns a relation with \<open>BPrime = 0\<close>; and the call returns
  \<^verbatim>\<open>ErrInsufficientBalance\<close> exactly when \<open>b - bStarFrom - fee < 0\<close>.
\<close>

theorem part1_spends_whole_balance:
  assumes tokens: "fromTokenId \<noteq> 0" "toTokenId \<noteq> 0" "fromTokenId \<noteq> toTokenId"
    and fee: "0 \<le> vFee"
    and key: "curve_ScalarBaseMul ext vSk = vPk"
    and inverse: "ffmath_ModInverse ext vSk (curve_Order ext) = Some skInv"
    and balance: "curve_Add ext (CR vC) (curve_Neg ext (curve_ScalarMul ext (CL vC) skInv))
                  = curve_ScalarMul ext (curve_H ext) vB"
    and positive: "0 < vB" "0 < vBStarFrom"
    and order: "curve_Order ext \<noteq> 0"
  shows "(vB = vBStarFrom + vFee \<longrightarrow>
            (\<exists>rel. NewSwapRelationPart1 ext rnd (Some vC) (Some vReceiverC) (Some vPk)
                     (Some vReceiverPk) (Some vB) (Some vBStarFrom) (Some vBStarTo) (Some vSk)
                     fromTokenId toTokenId (Some vFee) = Inr rel \<and> BPrime rel = 0))
         \<and>
         (NewSwapRelationPart1 ext rnd (Some vC) (Some vReceiverC) (Some vPk) (Some vReceiverPk)
            (Some vB) (Some vBStarFrom) (Some vBStarTo) (Some vSk) fromTokenId toTokenId (Some vFee)
            = Inl ErrInsufficientBalance
          \<longleftrightarrow> vB - vBStarFrom - vFee < 0)"
  using assms by (simp add: NewSwapRelationPart1_run)

theorem part1_spends_whole_balance_witness:
  "\<exists>rel. NewSwapRelationPart1 pair_ext rnd_seq (Some fake_bEnc1) (Some fake_bEnc2) (Some fake_pk1)
          (Some fake_pk2) (Some 8) (Some 5) (Some 8) (Some fake_sk1) 1 2 (Some 3) = Inr rel \<and>
        BPrime rel = 0"
proof -
  have tokens: "(1 :: 32 word) \<noteq> 0" "(2 :: 32 word) \<noteq> 0" "(1 :: 32 word) \<noteq> 2"
    by simp_all
  have fee: "(0 :: int) \<le> 3"
    by simp
  have key: "curve_ScalarBaseMul pair_ext fake_sk1 = fake_pk1"
    by (simp add: pair_ext_simps fake_sk1_def fake_pk1_def)
  have inverse: "ffmath_ModInverse pair_ext fake_sk1 (curve_Order pair_ext) = Some 4"
    by (simp add: pair_ext_simps fake_sk1_def)
  have balance: "curve_Add pair_ext (CR fake_bEnc1) (curve_Neg pair_ext
      (curve_ScalarMul pair_ext (CL fake_bEnc1) 4))
      = curve_ScalarMul pair_ext (curve_H pair_ext) 8"
    by (simp add: pair_ext_simps fake_bEnc1_def)
  have positive: "(0 :: int) < 8" "(0 :: int) < 5"
    by simp_all
  have order: "curve_Order pair_ext \<noteq> 0"
    by (simp add: pair_ext_simps)
  from part1_spends_whole_balance [OF tokens fee key inverse balance positive order,
      of rnd_seq fake_bEnc2 fake_pk2 8]
  show ?thesis
    by simp
qed

subsection \<open>The unreachable branch of the second builder\<close>

text \<open>
  C10. \<^verbatim>\<open>NewSwapRelationPart2\<close> never returns \<^verbatim>\<open>ErrPostiveBStar\<close>. The first check already
  returns \<^verbatim>\<open>ErrInvalidParams\<close> for a \<^verbatim>\<open>nil\<close> proof, and for every proof whose \<^verbatim>\<open>BStar2\<close> is
  not positive (the amounts \<^verbatim>\<open>BStar1\<close>, \<^verbatim>\<open>BStar2\<close> being present, as the first check
  dereferences both).
\<close>

theorem part2_never_ErrPostiveBStar:
  "NewSwapRelationPart2 ext rnd C' receiverC pk receiverPk b sk fromTokenId toTokenId proof
     \<noteq> Inl ErrPostiveBStar
   \<and>
   (proof = None \<longrightarrow>
      NewSwapRelationPart2 ext rnd C' receiverC pk receiverPk b sk fromTokenId toTokenId proof
        = Inl ErrInvalidParams)
   \<and>
   (\<forall>vProof vBStar1 vBStar2.
      proof = Some vProof \<and> BStar1 vProof = Some vBStar1 \<and> BStar2 vProof = Some vBStar2 \<and>
      vBStar2 \<le> 0 \<longrightarrow>
      NewSwapRelationPart2 ext rnd C' receiverC pk receiverPk b sk fromTokenId toTokenId proof
        = Inl ErrInvalidParams)"
proof (cases "C' = None \<or> receiverC = None \<or> pk = None \<or> receiverPk = None \<or> sk = None \<or>
              proof = None")
  case True
  have nil: "NewSwapRelationPart2 ext rnd C' receiverC pk receiverPk b sk fromTokenId toTokenId proof
               = Inl ErrInvalidParams"
    using True by (rule NewSwapRelationPart2_nil)
  show ?thesis
    unfolding nil by simp
next
  case False
  then obtain vC vReceiverC vPk vReceiverPk vSk vProof where
    s: "C' = Some vC" "receiverC = Some vReceiverC" "pk = Some vPk" "receiverPk = Some vReceiverPk"
       "sk = Some vSk" "proof = Some vProof"
    by auto
  show ?thesis
    unfolding s NewSwapRelationPart2_params
    by (auto split: option.splits)
qed

theorem part2_never_ErrPostiveBStar_witness:
  "NewSwapRelationPart2 pair_ext rnd_seq (Some fake_bEnc3) (Some fake_bEnc4) (Some fake_pk2)
     (Some fake_pk1) (Some 8) (Some fake_sk2) 1 2
     (Some \<lparr> BStar1 = Some 1, BStar2 = Some 0, Fee = Some 0,
             Ht1 = Some (0, 1), Ht2 = Some (0, 2) \<rparr>) = Inl ErrInvalidParams \<and>
   NewSwapRelationPart2 pair_ext rnd_seq (Some fake_bEnc3) (Some fake_bEnc4) (Some fake_pk2)
     (Some fake_pk1) (Some 8) (Some fake_sk2) 1 2 None = Inl ErrInvalidParams"
  using part2_never_ErrPostiveBStar [of pair_ext rnd_seq "Some fake_bEnc3" "Some fake_bEnc4"
      "Some fake_pk2" "Some fake_pk1" "Some 8" "Some fake_sk2" 1 2
      "Some \<lparr> BStar1 = Some 1, BStar2 = Some 0, Fee = Some 0, Ht1 = Some (0, 1), Ht2 = Some (0, 2) \<rparr>"]
    part2_never_ErrPostiveBStar [of pair_ext rnd_seq "Some fake_bEnc3" "Some fake_bEnc4"
      "Some fake_pk2" "Some fake_pk1" "Some 8" "Some fake_sk2" 1 2 None]
  by simp

end
